theory Spec2Isabelle
  imports Main
begin

section \<open>The login form of the aptitude-interview frontend\<close>

text \<open>
  The development embeds two React components: \<open>LoginForm\<close> (the controlled form with
  its \<open>handleSubmit\<close> handler) and \<open>LoginPage\<close> (the page that composes it).

  A component is a function from its props and the values of its hook cells to the element
  tree it returns. The effects of the event handlers (state updates, the call of the injected
  callback, \<open>preventDefault\<close>, the settlement of the promise \<open>handleSubmit\<close> returns) are
  written into an explicit world that every handler takes and returns. A state setter
  updates its cell at once; React's deferral of the update to the next render is not
  modelled, every event sees the render of the current cells.
\<close>

subsection \<open>Component state and the submitted object\<close>

text \<open>
  \<open>login_data\<close> is the object \<open>{ email, password, remember }\<close> passed to \<open>onSubmit\<close>.
  \<open>form_state\<close> holds the four \<open>useState\<close> cells of \<open>LoginForm\<close>: the three of the same
  names and \<open>isLoading\<close>.
\<close>

record login_data =
  email :: string
  password :: string
  remember :: bool

record form_state = login_data +
  isLoading :: bool

text \<open>The initial values given to \<open>useState\<close>.\<close>

definition initial_state :: form_state where
  "initial_state = \<lparr>email = '''', password = '''', remember = False, isLoading = False\<rparr>"

subsection \<open>Promises and the injected callback\<close>

text \<open>
  A \<open>Promise<void>\<close> settles as fulfilled or as rejected with a reason. Calling the
  injected callback either throws before it returns, or returns a promise, which the
  environment settles later (or never).
\<close>

datatype 'e settlement = Fulfilled | Rejected 'e

datatype 'e call_result = Throws 'e | Returns_promise

type_synonym 'e handler_fn = "login_data \<Rightarrow> 'e call_result"

subsection \<open>Element trees\<close>

text \<open>
  The closures a render attaches as event handlers. \<open>handleSubmit\<close> closes over the
  \<open>email\<close>, \<open>password\<close> and \<open>remember\<close> values of the render that created it; the three
  \<open>onChange\<close>/\<open>onCheckedChange\<close> arrows close over the setters only.
\<close>

datatype handler =
    HandleSubmit string string bool
  | OnChangeEmail
  | OnChangePassword
  | OnCheckedChange

datatype prop_value = S string | B bool | H handler

datatype element =
    Text string
  | Element string "(string \<times> prop_value) list" "element list"

fun tag :: "element \<Rightarrow> string" where
  "tag (Text t) = ''''"
| "tag (Element t ps cs) = t"

fun prop_of :: "string \<Rightarrow> element \<Rightarrow> prop_value option" where
  "prop_of k (Text t) = None"
| "prop_of k (Element t ps cs) = map_of ps k"

text \<open>The element and everything below it, parents before children, in document order.\<close>

fun descendants :: "element \<Rightarrow> element list" where
  "descendants (Text t) = [Text t]"
| "descendants (Element t ps cs) = Element t ps cs # concat (map descendants cs)"

text \<open>Every event-handler closure attached anywhere in a tree.\<close>

fun handlers_of_props :: "(string \<times> prop_value) list \<Rightarrow> handler list" where
  "handlers_of_props [] = []"
| "handlers_of_props ((k, H h) # ps) = h # handlers_of_props ps"
| "handlers_of_props ((k, v) # ps) = handlers_of_props ps"

fun handlers :: "element \<Rightarrow> handler list" where
  "handlers (Text t) = []"
| "handlers (Element t ps cs) = handlers_of_props ps @ concat (map handlers cs)"

definition disabled :: "element \<Rightarrow> bool" where
  "disabled el = (prop_of ''disabled'' el = Some (B True))"

definition cls :: "string \<Rightarrow> string \<times> prop_value" where
  "cls c = (''className'', S c)"

subsection \<open>LoginForm: the render\<close>

text \<open>
  The props of \<open>LoginForm\<close>: \<open>className\<close> and \<open>onSubmit\<close> are both optional, \<open>rest\<close> is
  the remaining attributes (\<open>...props\<close>), spread onto the outer \<open>div\<close>.
\<close>

record 'e LoginFormProps =
  className :: "string option"
  onSubmit :: "'e handler_fn option"
  rest :: "(string \<times> prop_value) list"

text \<open>
  The tree returned by \<open>LoginForm\<close> (lines 34 to 107). The class-name helper \<open>cn\<close> of
  \<open>@/lib/utils\<close> is not among the sources and is a parameter. Components of the UI library
  (\<open>Input\<close>, \<open>Label\<close>, \<open>Checkbox\<close>, \<open>Button\<close>, \<open>Link\<close>) are element types, as in the tree
  React receives. The characters outside ASCII are Latin-1 and written by code.
\<close>

definition LoginForm ::
  "(string \<Rightarrow> string option \<Rightarrow> string) \<Rightarrow> 'e LoginFormProps \<Rightarrow> form_state \<Rightarrow> element" where
  "LoginForm cn p s =
    Element ''div'' ((''className'', S (cn ''flex flex-col gap-6'' (className p))) # rest p)
     [Element ''form'' [(''onSubmit'', H (HandleSubmit (email s) (password s) (remember s)))]
       [Element ''div'' [cls ''flex flex-col gap-6'']
         [Element ''div'' [cls ''flex flex-col items-center gap-2'']
           [Element ''h1'' [cls ''text-2xl font-bold''] [Text ''Bem-vindo de volta''],
            Element ''p'' [cls ''text-balance text-sm text-muted-foreground'']
              [Text ''Entre com sua conta para continuar'']],
          Element ''div'' [cls ''flex flex-col gap-4'']
           [Element ''div'' [cls ''grid gap-2'']
             [Element ''Label'' [(''htmlFor'', S ''email'')] [Text ''Email''],
              Element ''Input''
                [(''id'', S ''email''),
                 (''type'', S ''email''),
                 (''placeholder'', S ''seu@email.com''),
                 (''required'', B True),
                 (''disabled'', B (isLoading s)),
                 (''value'', S (email s)),
                 (''onChange'', H OnChangeEmail)] []],
            Element ''div'' [cls ''grid gap-2'']
             [Element ''div'' [cls ''flex items-center justify-between'']
               [Element ''Label'' [(''htmlFor'', S ''password'')] [Text ''Senha''],
                Element ''Link''
                  [(''href'', S ''/forgot-password''),
                   cls ''text-sm text-muted-foreground underline-offset-4 hover:text-primary hover:underline'']
                  [Text ''Esqueci minha senha'']],
              Element ''Input''
                [(''id'', S ''password''),
                 (''type'', S ''password''),
                 (''placeholder'', S ''********''),
                 (''required'', B True),
                 (''disabled'', B (isLoading s)),
                 (''value'', S (password s)),
                 (''onChange'', H OnChangePassword)] []],
            Element ''div'' [cls ''flex items-center space-x-2'']
             [Element ''Checkbox''
                [(''id'', S ''remember''),
                 (''checked'', B (remember s)),
                 (''onCheckedChange'', H OnCheckedChange),
                 (''disabled'', B (isLoading s))] [],
              Element ''Label''
                [(''htmlFor'', S ''remember''),
                 cls ''text-sm font-normal leading-none peer-disabled:cursor-not-allowed peer-disabled:opacity-70'']
                [Text ''Lembrar-me'']],
            Element ''Button''
              [(''type'', S ''submit''), cls ''w-full'', (''disabled'', B (isLoading s))]
              [Text (if isLoading s then ''Entrando...'' else ''Entrar'')]]]],
      Element ''div'' [cls ''text-center text-sm'']
       [Text (''N'' @ [CHR 0xE3] @ ''o tem uma conta?''),
        Text '' '',
        Element ''Link''
          [(''href'', S ''/register''), cls ''text-primary underline-offset-4 hover:underline'']
          [Text ''Criar conta'']]]"

subsection \<open>LoginPage: the render\<close>

text \<open>
  The tree \<open>LoginPage\<close> returns (lines 11 to 38). The component takes no props. The
  embedded \<open><LoginForm />\<close> is an element of type \<open>LoginForm\<close> without props.
\<close>

definition LoginPage :: element where
  "LoginPage =
    Element ''div'' [cls ''flex min-h-svh flex-col items-center justify-center bg-muted p-6 md:p-10'']
     [Element ''div'' [cls ''w-full max-w-sm'']
       [Element ''Card'' []
         [Element ''CardHeader'' [cls ''text-center'']
           [Element ''CardTitle'' [cls ''text-xl''] [Text ''Login''],
            Element ''CardDescription'' [] [Text (''Sistema de Aptid'' @ [CHR 0xE3] @ ''o SENAC'')]],
          Element ''CardContent'' []
           [Element ''LoginForm'' [] []]],
        Element ''p'' [cls ''mt-4 text-center text-xs text-muted-foreground'']
         [Text (''Ao continuar, voc'' @ [CHR 0xEA] @ '' concorda com nossos''),
          Text '' '',
          Element ''a''
            [(''href'', S ''#''), cls ''underline underline-offset-4 hover:text-primary'']
            [Text (''Termos de Servi'' @ [CHR 0xE7] @ ''o'')],
          Text '' '',
          Text ''e'',
          Text '' '',
          Element ''a''
            [(''href'', S ''#''), cls ''underline underline-offset-4 hover:text-primary'']
            [Text (''Pol'' @ [CHR 0xED] @ ''tica de Privacidade'')],
          Text ''.'']]]"

subsection \<open>The world of effects\<close>

text \<open>
  Submit events are numbered. \<open>prevented\<close> lists the events on which \<open>preventDefault\<close>
  was called, \<open>calls\<close> the invocations of the injected callback with their argument,
  \<open>awaiting\<close> the activations of \<open>handleSubmit\<close> suspended at the \<open>await\<close> of line 27,
  \<open>returned\<close> the settled promises of the activations that have finished, each with the
  event that started it. \<open>events\<close> counts the submit events dispatched so far.
\<close>

record 'e world =
  cells :: form_state
  prevented :: "nat list"
  calls :: "(nat \<times> login_data) list"
  awaiting :: "nat list"
  returned :: "(nat \<times> 'e settlement) list"
  events :: nat

definition mount :: "'e world" where
  "mount = \<lparr>cells = initial_state, prevented = [], calls = [], awaiting = [],
            returned = [], events = 0\<rparr>"

definition setIsLoading :: "bool \<Rightarrow> 'e world \<Rightarrow> 'e world" where
  "setIsLoading b w = w\<lparr>cells := (cells w)\<lparr>isLoading := b\<rparr>\<rparr>"

definition setEmail :: "string \<Rightarrow> 'e world \<Rightarrow> 'e world" where
  "setEmail v w = w\<lparr>cells := (cells w)\<lparr>email := v\<rparr>\<rparr>"

definition setPassword :: "string \<Rightarrow> 'e world \<Rightarrow> 'e world" where
  "setPassword v w = w\<lparr>cells := (cells w)\<lparr>password := v\<rparr>\<rparr>"

definition setRemember :: "bool \<Rightarrow> 'e world \<Rightarrow> 'e world" where
  "setRemember c w = w\<lparr>cells := (cells w)\<lparr>remember := c\<rparr>\<rparr>"

definition preventDefault :: "nat \<Rightarrow> 'e world \<Rightarrow> 'e world" where
  "preventDefault ev w = w\<lparr>prevented := prevented w @ [ev]\<rparr>"

subsection \<open>handleSubmit\<close>

text \<open>
  The \<open>finally\<close> block of lines 29 to 31, followed by the completion of the \<open>async\<close>
  function: the loading cell is reset first, then the promise of the activation settles
  with the outcome of the \<open>try\<close> block.
\<close>

definition handleSubmit_finally :: "nat \<Rightarrow> 'e settlement \<Rightarrow> 'e world \<Rightarrow> 'e world" where
  "handleSubmit_finally ev out w =
     (let w1 = setIsLoading False w
      in w1\<lparr>returned := returned w1 @ [(ev, out)]\<rparr>)"

text \<open>
  \<open>handleSubmit\<close> up to its only \<open>await\<close>. \<open>em\<close>, \<open>pw\<close> and \<open>rm\<close> are the values the
  closure captured, \<open>ev\<close> is the event. Without a callback, and when the callback throws
  before returning, the activation runs to its end at once; otherwise it is suspended.
\<close>

definition handleSubmit ::
  "'e handler_fn option \<Rightarrow> string \<Rightarrow> string \<Rightarrow> bool \<Rightarrow> nat \<Rightarrow> 'e world \<Rightarrow> 'e world" where
  "handleSubmit f em pw rm ev w =
     (let w1 = preventDefault ev w;
          w2 = setIsLoading True w1
      in case f of
           None \<Rightarrow> handleSubmit_finally ev Fulfilled w2
         | Some g \<Rightarrow>
             (let d = \<lparr>email = em, password = pw, remember = rm\<rparr>;
                  w3 = w2\<lparr>calls := calls w2 @ [(ev, d)]\<rparr>
              in case g d of
                   Throws r \<Rightarrow> handleSubmit_finally ev (Rejected r) w3
                 | Returns_promise \<Rightarrow> w3\<lparr>awaiting := awaiting w3 @ [ev]\<rparr>))"

text \<open>
  The rest of an activation suspended at the \<open>await\<close>, run when the awaited promise
  settles: a fulfilment ends the \<open>try\<close> block normally, a rejection is rethrown by
  \<open>await\<close>; nothing catches it, so either outcome goes through \<open>finally\<close> unchanged.
\<close>

definition handleSubmit_resume :: "nat \<Rightarrow> 'e settlement \<Rightarrow> 'e world \<Rightarrow> 'e world" where
  "handleSubmit_resume ev out w =
     handleSubmit_finally ev out (w\<lparr>awaiting := removeAll ev (awaiting w)\<rparr>)"

subsection \<open>Events\<close>

text \<open>What an event carries to its handler: \<open>e.target.value\<close>, \<open>checked\<close>, or the form event.\<close>

datatype payload = Value string | Checked bool | Form_event nat

fun run_handler :: "'e handler_fn option \<Rightarrow> handler \<Rightarrow> payload \<Rightarrow> 'e world \<Rightarrow> 'e world" where
  "run_handler f (HandleSubmit em pw rm) (Form_event ev) w = handleSubmit f em pw rm ev w"
| "run_handler f OnChangeEmail (Value v) w = setEmail v w"
| "run_handler f OnChangePassword (Value v) w = setPassword v w"
| "run_handler f OnCheckedChange (Checked c) w = setRemember c w"
| "run_handler f h x w = w"

text \<open>React's dispatch: run the closure attached to the target under the given prop.\<close>

definition fire ::
  "'e handler_fn option \<Rightarrow> element option \<Rightarrow> string \<Rightarrow> payload \<Rightarrow> 'e world \<Rightarrow> 'e world" where
  "fire f target name x w =
     (case target of
        None \<Rightarrow> w
      | Some el \<Rightarrow> (case prop_of name el of Some (H h) \<Rightarrow> run_handler f h x w | _ \<Rightarrow> w))"

definition control :: "string \<Rightarrow> string \<Rightarrow> element \<Rightarrow> element option" where
  "control t i tree =
     find (\<lambda>el. tag el = t \<and> prop_of ''id'' el = Some (S i)) (descendants tree)"

definition form_of :: "element \<Rightarrow> element option" where
  "form_of tree = find (\<lambda>el. tag el = ''form'') (descendants tree)"

definition submit_button :: "element \<Rightarrow> element option" where
  "submit_button tree =
     (case form_of tree of
        None \<Rightarrow> None
      | Some fm \<Rightarrow>
          find (\<lambda>el. tag el = ''Button'' \<and> prop_of ''type'' el = Some (S ''submit''))
            (descendants fm))"

text \<open>
  A submit event dispatched on the form rendered from the current cells, whatever the
  state of the controls (as a test's \<open>fireEvent.submit\<close> or \<open>form.requestSubmit()\<close> does).
\<close>

definition submit_event ::
  "(string \<Rightarrow> string option \<Rightarrow> string) \<Rightarrow> 'e LoginFormProps \<Rightarrow> nat \<Rightarrow> 'e world \<Rightarrow> 'e world" where
  "submit_event cn p ev w =
     fire (onSubmit p) (form_of (LoginForm cn p (cells w))) ''onSubmit'' (Form_event ev) w"

text \<open>
  An interaction with a control reaches its handler only when the control is rendered
  enabled: the browser dispatches nothing on a disabled control, and submits no form
  through a disabled submit button. The components of the UI library are taken to hand
  \<open>disabled\<close> on to the native control they render.
\<close>

definition interact ::
  "'e handler_fn option \<Rightarrow> element option \<Rightarrow> string \<Rightarrow> payload \<Rightarrow> 'e world \<Rightarrow> 'e world" where
  "interact f target name x w =
     (case target of
        None \<Rightarrow> w
      | Some el \<Rightarrow> if disabled el then w else fire f target name x w)"

text \<open>
  What the user and the environment can do to a mounted form: type into either input,
  set the checkbox, submit through the submit button, and settle the promise awaited by a
  suspended activation. Native constraint validation (\<open>required\<close>, \<open>type="email"\<close>) can only
  withhold a submit event and is left out, so \<open>deliver\<close> admits every submission a browser
  admits, and more.
\<close>

datatype 'e event =
    Type_email string
  | Type_password string
  | Set_remember bool
  | Submit
  | Settle nat "'e settlement"

fun deliver ::
  "(string \<Rightarrow> string option \<Rightarrow> string) \<Rightarrow> 'e LoginFormProps \<Rightarrow> 'e event \<Rightarrow> 'e world \<Rightarrow> 'e world" where
  "deliver cn p (Type_email v) w =
     interact (onSubmit p) (control ''Input'' ''email'' (LoginForm cn p (cells w)))
       ''onChange'' (Value v) w"
| "deliver cn p (Type_password v) w =
     interact (onSubmit p) (control ''Input'' ''password'' (LoginForm cn p (cells w)))
       ''onChange'' (Value v) w"
| "deliver cn p (Set_remember c) w =
     interact (onSubmit p) (control ''Checkbox'' ''remember'' (LoginForm cn p (cells w)))
       ''onCheckedChange'' (Checked c) w"
| "deliver cn p Submit w =
     (case submit_button (LoginForm cn p (cells w)) of
        None \<Rightarrow> w
      | Some b \<Rightarrow>
          if disabled b then w
          else submit_event cn p (events w) (w\<lparr>events := Suc (events w)\<rparr>))"
| "deliver cn p (Settle ev out) w =
     (if ev \<in> set (awaiting w) then handleSubmit_resume ev out w else w)"

text \<open>
  A sequence of events, oldest first, each with the props of the render it arrives at (the
  parent may pass other props, and so another callback, at every render).
\<close>

definition run ::
  "(string \<Rightarrow> string option \<Rightarrow> string) \<Rightarrow> ('e LoginFormProps \<times> 'e event) list \<Rightarrow>
     'e world \<Rightarrow> 'e world" where
  "run cn steps w = foldl (\<lambda>w' (p, ev). deliver cn p ev w') w steps"

text \<open>The text of the submit button, as rendered.\<close>

definition button_text :: "element \<Rightarrow> string option" where
  "button_text tree =
     (case submit_button tree of
        Some (Element t ps [Text txt]) \<Rightarrow> Some txt
      | _ \<Rightarrow> None)"

subsection \<open>Hook cells\<close>

text \<open>
  React calls the body of a function component at every render, against the hook cells it
  keeps for the instance: the \<open>n\<close>-th \<open>useState\<close> call of the body reads the \<open>n\<close>-th cell, or
  its initial value when the instance is being mounted and has no cell yet. A body is a
  function from the cells and the number of cells read so far to its result and the
  number of cells read after it. A component holds state exactly when its body reads a
  cell.
\<close>

datatype cell = Flag bool | Txt string

type_synonym 'a hooks = "cell list \<Rightarrow> nat \<Rightarrow> 'a \<times> nat"

definition useState :: "cell \<Rightarrow> cell hooks" where
  "useState init store i = ((if i < length store then store ! i else init), Suc i)"

definition returns :: "'a \<Rightarrow> 'a hooks" where
  "returns x store i = (x, i)"

definition and_then :: "'a hooks \<Rightarrow> ('a \<Rightarrow> 'b hooks) \<Rightarrow> 'b hooks" where
  "and_then m f store i = (case m store i of (x, j) \<Rightarrow> f x store j)"

text \<open>
  The type of each \<open>useState\<close> is fixed by its initial value, so a boolean cell is never
  read as a string or a string cell as a boolean; the readers give the initial value there.
\<close>

fun flag_of :: "cell \<Rightarrow> bool" where
  "flag_of (Flag b) = b"
| "flag_of (Txt t) = False"

fun text_of :: "cell \<Rightarrow> string" where
  "text_of (Txt t) = t"
| "text_of (Flag b) = ''''"

text \<open>
  The body of \<open>LoginForm\<close>: the four \<open>useState\<close> calls of lines 16 to 19, in their order,
  then the tree of the values read.
\<close>

definition LoginForm_body ::
  "(string \<Rightarrow> string option \<Rightarrow> string) \<Rightarrow> 'e LoginFormProps \<Rightarrow> element hooks" where
  "LoginForm_body cn p =
     and_then (useState (Flag False)) (\<lambda>isLoading_cell.
     and_then (useState (Txt '''')) (\<lambda>email_cell.
     and_then (useState (Txt '''')) (\<lambda>password_cell.
     and_then (useState (Flag False)) (\<lambda>remember_cell.
     returns (LoginForm cn p
       \<lparr>email = text_of email_cell, password = text_of password_cell,
        remember = flag_of remember_cell, isLoading = flag_of isLoading_cell\<rparr>)))))"

text \<open>The body of \<open>LoginPage\<close> (lines 10 to 39): a \<open>return\<close> and nothing else.\<close>

definition LoginPage_body :: "element hooks" where
  "LoginPage_body = returns LoginPage"

text \<open>The text leaves of a tree, in document order.\<close>

fun texts :: "element \<Rightarrow> string list" where
  "texts (Text t) = [t]"
| "texts (Element t ps cs) = concat (map texts cs)"

text \<open>
  The shape of a tree: the type and the number of children of every node, parents before
  children, in document order.
\<close>

fun outline :: "element \<Rightarrow> (string \<times> nat) list" where
  "outline (Text t) = [(''#text'', 0)]"
| "outline (Element t ps cs) = (t, length cs) # concat (map outline cs)"

text \<open>All elements of one type in a tree, in document order.\<close>

definition by_tag :: "string \<Rightarrow> element \<Rightarrow> element list" where
  "by_tag t tree = filter (\<lambda>el. tag el = t) (descendants tree)"

text \<open>
  The invariant of the mounted form: the loading cell is set exactly when an activation of
  \<open>handleSubmit\<close> is suspended on the callback's promise, and at most one is.
\<close>

definition loading_inv :: "'e world \<Rightarrow> bool" where
  "loading_inv w =
     ((isLoading (cells w) = (awaiting w \<noteq> [])) \<and> length (awaiting w) \<le> 1)"

section \<open>Properties\<close>

subsection \<open>What the render of LoginForm contains\<close>

lemma LoginForm_form_handler:
  "fire f (form_of (LoginForm cn p s)) ''onSubmit'' x w =
     run_handler f (HandleSubmit (email s) (password s) (remember s)) x w"
  by (simp add: fire_def form_of_def LoginForm_def cls_def)

lemma LoginForm_submit_button:
  "submit_button (LoginForm cn p s) =
     Some (Element ''Button''
             [(''type'', S ''submit''), cls ''w-full'', (''disabled'', B (isLoading s))]
             [Text (if isLoading s then ''Entrando...'' else ''Entrar'')])"
  by (simp add: submit_button_def form_of_def LoginForm_def cls_def)

lemma LoginForm_email_input:
  "control ''Input'' ''email'' (LoginForm cn p s) =
     Some (Element ''Input''
             [(''id'', S ''email''), (''type'', S ''email''),
              (''placeholder'', S ''seu@email.com''), (''required'', B True),
              (''disabled'', B (isLoading s)), (''value'', S (email s)),
              (''onChange'', H OnChangeEmail)] [])"
  by (simp add: control_def LoginForm_def cls_def)

lemma LoginForm_password_input:
  "control ''Input'' ''password'' (LoginForm cn p s) =
     Some (Element ''Input''
             [(''id'', S ''password''), (''type'', S ''password''),
              (''placeholder'', S ''********''), (''required'', B True),
              (''disabled'', B (isLoading s)), (''value'', S (password s)),
              (''onChange'', H OnChangePassword)] [])"
  by (simp add: control_def LoginForm_def cls_def)

lemma LoginForm_checkbox:
  "control ''Checkbox'' ''remember'' (LoginForm cn p s) =
     Some (Element ''Checkbox''
             [(''id'', S ''remember''), (''checked'', B (remember s)),
              (''onCheckedChange'', H OnCheckedChange),
              (''disabled'', B (isLoading s))] [])"
  by (simp add: control_def LoginForm_def cls_def)

subsection \<open>Events, resolved against the render\<close>

lemma submit_event_handleSubmit:
  "submit_event cn p ev w =
     handleSubmit (onSubmit p) (email (cells w)) (password (cells w)) (remember (cells w)) ev w"
  by (simp add: submit_event_def LoginForm_form_handler)

lemma deliver_Submit:
  "deliver cn p Submit w =
     (if isLoading (cells w) then w
      else handleSubmit (onSubmit p) (email (cells w)) (password (cells w))
             (remember (cells w)) (events w) (w\<lparr>events := Suc (events w)\<rparr>))"
  by (simp add: LoginForm_submit_button submit_event_handleSubmit disabled_def cls_def)

lemma deliver_Type_email:
  "deliver cn p (Type_email v) w = (if isLoading (cells w) then w else setEmail v w)"
  by (simp add: LoginForm_email_input interact_def fire_def disabled_def)

lemma deliver_Type_password:
  "deliver cn p (Type_password v) w = (if isLoading (cells w) then w else setPassword v w)"
  by (simp add: LoginForm_password_input interact_def fire_def disabled_def)

lemma deliver_Set_remember:
  "deliver cn p (Set_remember c) w = (if isLoading (cells w) then w else setRemember c w)"
  by (simp add: LoginForm_checkbox interact_def fire_def disabled_def)

lemma deliver_Settle:
  "deliver cn p (Settle ev out) w =
     (if ev \<in> set (awaiting w) then handleSubmit_resume ev out w else w)"
  by simp

lemmas deliver_eqs =
  deliver_Type_email deliver_Type_password deliver_Set_remember deliver_Submit deliver_Settle

declare deliver.simps [simp del]

lemmas handleSubmit_defs =
  handleSubmit_def handleSubmit_finally_def handleSubmit_resume_def
  setIsLoading_def preventDefault_def

lemma run_snoc: "run cn (steps @ [(p, ev)]) w = deliver cn p ev (run cn steps w)"
  by (simp add: run_def)

subsection \<open>The loading invariant\<close>

lemma mount_inv: "loading_inv mount"
  by (simp add: loading_inv_def mount_def initial_state_def)

lemma handleSubmit_inv:
  assumes "loading_inv w" and "\<not> isLoading (cells w)"
  shows "loading_inv (handleSubmit f em pw rm ev (w\<lparr>events := n\<rparr>))"
proof (cases f)
  case None
  with assms show ?thesis
    by (simp add: loading_inv_def handleSubmit_defs)
next
  case (Some g)
  with assms show ?thesis
    by (cases "g \<lparr>email = em, password = pw, remember = rm\<rparr>")
      (simp_all add: loading_inv_def handleSubmit_defs)
qed

lemma resume_inv:
  assumes "loading_inv w" and "ev \<in> set (awaiting w)"
  shows "loading_inv (handleSubmit_resume ev out w)"
proof -
  from assms have "awaiting w = [ev]"
    by (cases "awaiting w") (auto simp: loading_inv_def)
  then show ?thesis
    by (simp add: loading_inv_def handleSubmit_defs)
qed

lemma deliver_inv: "loading_inv w \<Longrightarrow> loading_inv (deliver cn p ev w)"
proof (cases ev)
  case (Type_email v)
  assume "loading_inv w"
  then show ?thesis
    unfolding Type_email deliver_Type_email by (simp add: loading_inv_def setEmail_def)
next
  case (Type_password v)
  assume "loading_inv w"
  then show ?thesis
    unfolding Type_password deliver_Type_password by (simp add: loading_inv_def setPassword_def)
next
  case (Set_remember c)
  assume "loading_inv w"
  then show ?thesis
    unfolding Set_remember deliver_Set_remember by (simp add: loading_inv_def setRemember_def)
next
  case Submit
  assume "loading_inv w"
  then show ?thesis
    unfolding Submit deliver_Submit by (simp add: handleSubmit_inv)
next
  case (Settle e out)
  assume "loading_inv w"
  then show ?thesis
    unfolding Settle deliver_Settle by (simp add: resume_inv)
qed

lemma run_inv: "loading_inv w \<Longrightarrow> loading_inv (run cn steps w)"
  unfolding run_def by (induction steps arbitrary: w) (auto simp: deliver_inv)

lemma run_mount_inv: "loading_inv (run cn steps mount)"
  by (rule run_inv [OF mount_inv])

subsection \<open>Which component reads hook cells\<close>

text \<open>
  The body of \<open>LoginForm\<close> reads four cells, renders the initial state at mount and the
  state held in its cells afterwards; its tree changes with them.
\<close>

lemma LoginForm_body_cells:
  "snd (LoginForm_body cn p store i) = i + 4
   \<and> fst (LoginForm_body cn p [] 0) = LoginForm cn p initial_state
   \<and> fst (LoginForm_body cn p [Flag l, Txt e, Txt pw, Flag r] 0)
       = LoginForm cn p \<lparr>email = e, password = pw, remember = r, isLoading = l\<rparr>"
  by (simp add: LoginForm_body_def and_then_def useState_def returns_def initial_state_def)

lemma LoginForm_body_not_static:
  "fst (LoginForm_body cn p [Flag True] 0) \<noteq> fst (LoginForm_body cn p [] 0)"
  by (simp add: LoginForm_body_def and_then_def useState_def returns_def LoginForm_def)

subsection \<open>Where the serialisation comes from\<close>

text \<open>
  \<open>handleSubmit\<close> does not test \<open>isLoading\<close>: two submit events dispatched on the form
  itself, the second while the first callback is pending, start two activations. Only the
  disabled controls keep a second submission from starting.
\<close>

lemma handleSubmit_not_guarded:
  "awaiting (submit_event cn (p\<lparr>onSubmit := Some (\<lambda>d. Returns_promise)\<rparr>) 1
     (submit_event cn (p\<lparr>onSubmit := Some (\<lambda>d. Returns_promise)\<rparr>) 0 mount)) = [0, 1]"
  by (simp add: submit_event_handleSubmit handleSubmit_defs mount_def)

subsection \<open>The claims\<close>

text \<open>
  C1. With a callback supplied, one submit event on the form invokes the callback exactly
  once, with the \<open>email\<close>, \<open>password\<close> and \<open>remember\<close> cells as they are when the event
  arrives: the dispatch appends one invocation with that argument, in every state of the
  form; the rest of the activation, run when the promise settles, appends none; and a
  submission through the enabled submit button is such a dispatch.
\<close>

theorem submit_calls_handler_once:
  "calls (submit_event cn (p\<lparr>onSubmit := Some g\<rparr>) ev w) =
     calls w @ [(ev, \<lparr>email = email (cells w), password = password (cells w),
                      remember = remember (cells w)\<rparr>)]
   \<and> calls (handleSubmit_resume ev out (submit_event cn (p\<lparr>onSubmit := Some g\<rparr>) ev w)) =
     calls (submit_event cn (p\<lparr>onSubmit := Some g\<rparr>) ev w)
   \<and> calls (deliver cn (p\<lparr>onSubmit := Some g\<rparr>) Submit w) =
     (if isLoading (cells w) then calls w
      else calls w @ [(events w, \<lparr>email = email (cells w), password = password (cells w),
                                  remember = remember (cells w)\<rparr>)])"
proof -
  let ?d = "\<lparr>email = email (cells w), password = password (cells w),
             remember = remember (cells w)\<rparr>"
  have start: "calls (handleSubmit (Some g) (email (cells w)) (password (cells w))
                 (remember (cells w)) e (w\<lparr>events := n\<rparr>)) = calls w @ [(e, ?d)]" for e n
    by (cases "g ?d") (simp_all add: handleSubmit_defs)
  have start': "calls (handleSubmit (Some g) (email (cells w)) (password (cells w))
                 (remember (cells w)) e w) = calls w @ [(e, ?d)]" for e
    using start [of e "events w"] by simp
  have resume: "calls (handleSubmit_resume ev out w') = calls w'" for w' :: "'a world"
    by (simp add: handleSubmit_defs)
  show ?thesis
    by (simp add: submit_event_handleSubmit deliver_Submit start start' resume)
qed

text \<open>
  C2. After any sequence of events delivered to a mounted form, whatever the props of each
  render, \<open>isLoading\<close> is set exactly when the promise returned by the callback is still
  awaited: it is set from the submission that invokes the callback, and when that promise
  settles, fulfilled or rejected, \<open>isLoading\<close> is false and nothing is awaited any more.
\<close>

theorem loading_exactly_while_pending:
  "isLoading (cells (run cn steps mount)) = (awaiting (run cn steps mount) \<noteq> [])
   \<and> (\<forall>ev out. ev \<in> set (awaiting (run cn steps mount)) \<longrightarrow>
         \<not> isLoading (cells (deliver cn p (Settle ev out) (run cn steps mount)))
         \<and> awaiting (deliver cn p (Settle ev out) (run cn steps mount)) = [])"
proof -
  let ?w = "run cn steps mount"
  have inv: "loading_inv ?w" by (rule run_mount_inv)
  have step: "loading_inv (deliver cn p (Settle ev out) ?w)" for ev out
    by (rule deliver_inv [OF inv])
  have "\<not> isLoading (cells (deliver cn p (Settle ev out) ?w))"
    if "ev \<in> set (awaiting ?w)" for ev out
    using that by (simp add: deliver_Settle handleSubmit_defs)
  with inv step show ?thesis
    by (auto simp: loading_inv_def)
qed

theorem loading_exactly_while_pending_witness:
  "isLoading (cells (run (\<lambda>a b. a) [(\<lparr>className = None, onSubmit = Some (\<lambda>d. Returns_promise),
       rest = []\<rparr>, Submit)] (mount :: string world)))
   \<and> 0 \<in> set (awaiting (run (\<lambda>a b. a) [(\<lparr>className = None,
       onSubmit = Some (\<lambda>d. Returns_promise), rest = []\<rparr>, Submit)] (mount :: string world)))
   \<and> \<not> isLoading (cells (deliver (\<lambda>a b. a) \<lparr>className = None,
       onSubmit = Some (\<lambda>d. Returns_promise), rest = []\<rparr> (Settle 0 (Rejected ''denied''))
       (run (\<lambda>a b. a) [(\<lparr>className = None, onSubmit = Some (\<lambda>d. Returns_promise),
          rest = []\<rparr>, Submit)] (mount :: string world))))"
proof -
  let ?p = "\<lparr>className = None, onSubmit = Some (\<lambda>d. Returns_promise :: string call_result),
             rest = []\<rparr>"
  let ?w = "run (\<lambda>a b. a) [(?p, Submit)] (mount :: string world)"
  have aw: "awaiting ?w = [0]"
    by (simp add: run_def deliver_Submit handleSubmit_defs mount_def initial_state_def)
  have mem: "0 \<in> set (awaiting ?w)"
    by (simp add: aw)
  from loading_exactly_while_pending [of "\<lambda>a b. a" "[(?p, Submit)]" ?p]
  have ld: "isLoading (cells ?w) = (awaiting ?w \<noteq> [])"
    and st: "\<forall>ev out. ev \<in> set (awaiting ?w) \<longrightarrow>
         \<not> isLoading (cells (deliver (\<lambda>a b. a) ?p (Settle ev out) ?w))
         \<and> awaiting (deliver (\<lambda>a b. a) ?p (Settle ev out) ?w) = []"
    by blast+
  from ld aw have "isLoading (cells ?w)" by simp
  moreover from st mem
  have "\<not> isLoading (cells (deliver (\<lambda>a b. a) ?p (Settle 0 (Rejected ''denied'')) ?w))"
    by blast
  ultimately show ?thesis using mem by blast
qed

text \<open>
  C3. A rejection of the callback is neither caught nor changed: when the awaited promise
  rejects with \<open>r\<close>, the promise of that activation of \<open>handleSubmit\<close> rejects with the
  same \<open>r\<close>, and in the world where it has done so \<open>isLoading\<close> is already false. The
  same holds when the callback throws \<open>r\<close> before it returns a promise.
\<close>

theorem rejection_propagates_after_reset:
  "(ev \<in> set (awaiting w) \<longrightarrow>
      returned (deliver cn p (Settle ev (Rejected r)) w) = returned w @ [(ev, Rejected r)]
      \<and> \<not> isLoading (cells (deliver cn p (Settle ev (Rejected r)) w)))
   \<and> (g \<lparr>email = email (cells w), password = password (cells w),
           remember = remember (cells w)\<rparr> = Throws r \<longrightarrow>
      returned (submit_event cn (p\<lparr>onSubmit := Some g\<rparr>) ev w) = returned w @ [(ev, Rejected r)]
      \<and> \<not> isLoading (cells (submit_event cn (p\<lparr>onSubmit := Some g\<rparr>) ev w)))"
  by (simp add: deliver_Settle submit_event_handleSubmit handleSubmit_defs)

theorem rejection_propagates_after_reset_witness:
  "0 \<in> set (awaiting (deliver (\<lambda>a b. a) \<lparr>className = None,
      onSubmit = Some (\<lambda>d. Returns_promise), rest = []\<rparr> Submit (mount :: string world)))
   \<and> returned (deliver (\<lambda>a b. a) \<lparr>className = None,
      onSubmit = Some (\<lambda>d. Returns_promise), rest = []\<rparr> (Settle 0 (Rejected ''denied''))
        (deliver (\<lambda>a b. a) \<lparr>className = None,
           onSubmit = Some (\<lambda>d. Returns_promise), rest = []\<rparr> Submit (mount :: string world)))
     = [(0, Rejected ''denied'')]
   \<and> (\<lambda>d. Throws ''denied'') \<lparr>email = email (cells (mount :: string world)),
         password = password (cells (mount :: string world)),
         remember = remember (cells (mount :: string world))\<rparr> = Throws ''denied''
   \<and> returned (submit_event (\<lambda>a b. a) (\<lparr>className = None, onSubmit = None, rest = []\<rparr>
        \<lparr>onSubmit := Some (\<lambda>d. Throws ''denied'')\<rparr>) 0 (mount :: string world))
     = [(0, Rejected ''denied'')]"
proof -
  let ?p = "\<lparr>className = None, onSubmit = Some (\<lambda>d. Returns_promise :: string call_result),
             rest = []\<rparr>"
  let ?q = "\<lparr>className = None, onSubmit = None :: string handler_fn option, rest = []\<rparr>"
  let ?w = "deliver (\<lambda>a b. a) ?p Submit (mount :: string world)"
  have aw: "awaiting ?w = [0]" and rt: "returned ?w = []"
    by (simp_all add: deliver_Submit handleSubmit_defs mount_def initial_state_def)
  have rm: "returned (mount :: string world) = []"
    by (simp add: mount_def)
  from aw have mem: "0 \<in> set (awaiting ?w)" by simp
  note suspended = rejection_propagates_after_reset
    [where ev = 0 and w = ?w and r = "''denied''" and cn = "\<lambda>a b. a" and p = ?p]
  note thrown = rejection_propagates_after_reset
    [where ev = 0 and w = "mount :: string world" and r = "''denied''" and cn = "\<lambda>a b. a"
      and p = ?q and g = "\<lambda>d. Throws ''denied''"]
  from suspended mem rt
  have a: "returned (deliver (\<lambda>a b. a) ?p (Settle 0 (Rejected ''denied'')) ?w)
             = [(0, Rejected ''denied'')]"
    by simp
  from thrown rm
  have b: "returned (submit_event (\<lambda>a b. a) (?q\<lparr>onSubmit := Some (\<lambda>d. Throws ''denied'')\<rparr>) 0
             (mount :: string world)) = [(0, Rejected ''denied'')]"
    by simp
  from mem a b show ?thesis by simp
qed

text \<open>
  C4. In the tree rendered from any state, the email input, the password input, the
  remember checkbox and the submit button each carry \<open>disabled\<close> exactly when \<open>isLoading\<close>
  is true.
\<close>

theorem controls_disabled_iff_loading:
  "map_option disabled (control ''Input'' ''email'' (LoginForm cn p s)) = Some (isLoading s)
   \<and> map_option disabled (control ''Input'' ''password'' (LoginForm cn p s)) = Some (isLoading s)
   \<and> map_option disabled (control ''Checkbox'' ''remember'' (LoginForm cn p s)) = Some (isLoading s)
   \<and> map_option disabled (submit_button (LoginForm cn p s)) = Some (isLoading s)"
  by (simp add: LoginForm_email_input LoginForm_password_input LoginForm_checkbox
      LoginForm_submit_button disabled_def cls_def)

text \<open>
  C5. Without a callback, a submit event on the form, in any state, has its default action
  prevented; the activation of \<open>handleSubmit\<close> ends at once with a fulfilled promise,
  invokes nothing, leaves nothing awaited, and leaves \<open>isLoading\<close> false.
\<close>

theorem submit_without_handler:
  "prevented (submit_event cn (p\<lparr>onSubmit := None\<rparr>) ev w) = prevented w @ [ev]
   \<and> returned (submit_event cn (p\<lparr>onSubmit := None\<rparr>) ev w) = returned w @ [(ev, Fulfilled)]
   \<and> \<not> isLoading (cells (submit_event cn (p\<lparr>onSubmit := None\<rparr>) ev w))
   \<and> calls (submit_event cn (p\<lparr>onSubmit := None\<rparr>) ev w) = calls w
   \<and> awaiting (submit_event cn (p\<lparr>onSubmit := None\<rparr>) ev w) = awaiting w"
  by (simp add: submit_event_handleSubmit handleSubmit_defs)

text \<open>
  C6. After any sequence of events delivered to a mounted form, whatever the props of each
  render, at most one invocation of the callback is pending; and while one is, the submit
  button is rendered disabled and a submission changes nothing, so that no second
  invocation starts.
\<close>

theorem at_most_one_pending:
  "length (awaiting (run cn steps mount)) \<le> 1
   \<and> (awaiting (run cn steps mount) \<noteq> [] \<longrightarrow>
        map_option disabled (submit_button (LoginForm cn p (cells (run cn steps mount))))
          = Some True
        \<and> deliver cn p Submit (run cn steps mount) = run cn steps mount)"
proof -
  have inv: "loading_inv (run cn steps mount)" by (rule run_mount_inv)
  then show ?thesis
    by (simp add: loading_inv_def deliver_Submit LoginForm_submit_button disabled_def cls_def)
qed

theorem at_most_one_pending_witness:
  "awaiting (run (\<lambda>a b. a) [(\<lparr>className = None, onSubmit = Some (\<lambda>d. Returns_promise),
       rest = []\<rparr>, Submit)] (mount :: string world)) \<noteq> []
   \<and> deliver (\<lambda>a b. a) \<lparr>className = None, onSubmit = Some (\<lambda>d. Returns_promise),
       rest = []\<rparr> Submit
       (run (\<lambda>a b. a) [(\<lparr>className = None, onSubmit = Some (\<lambda>d. Returns_promise),
          rest = []\<rparr>, Submit)] (mount :: string world))
     = run (\<lambda>a b. a) [(\<lparr>className = None, onSubmit = Some (\<lambda>d. Returns_promise),
          rest = []\<rparr>, Submit)] (mount :: string world)"
proof -
  let ?p = "\<lparr>className = None, onSubmit = Some (\<lambda>d. Returns_promise :: string call_result),
             rest = []\<rparr>"
  let ?w = "run (\<lambda>a b. a) [(?p, Submit)] (mount :: string world)"
  have aw: "awaiting ?w \<noteq> []"
    by (simp add: run_def deliver_Submit handleSubmit_defs mount_def initial_state_def)
  with at_most_one_pending [of "\<lambda>a b. a" "[(?p, Submit)]" ?p]
  have "deliver (\<lambda>a b. a) ?p Submit ?w = ?w"
    by blast
  with aw show ?thesis by blast
qed

text \<open>
  C7. Setting the remember checkbox leaves the \<open>email\<close>, \<open>password\<close> and \<open>isLoading\<close>
  cells as they were: delivered by the browser it sets \<open>remember\<close> when the checkbox is
  enabled and does nothing otherwise, and its \<open>onCheckedChange\<close> handler, run in any state,
  updates the \<open>remember\<close> cell and nothing else.
\<close>

theorem remember_toggle_frame:
  "email (cells (deliver cn p (Set_remember c) w)) = email (cells w)
   \<and> password (cells (deliver cn p (Set_remember c) w)) = password (cells w)
   \<and> isLoading (cells (deliver cn p (Set_remember c) w)) = isLoading (cells w)
   \<and> remember (cells (deliver cn p (Set_remember c) w)) =
       (if isLoading (cells w) then remember (cells w) else c)
   \<and> fire (onSubmit p) (control ''Checkbox'' ''remember'' (LoginForm cn p (cells w)))
         ''onCheckedChange'' (Checked c) w
       = w\<lparr>cells := (cells w)\<lparr>remember := c\<rparr>\<rparr>"
  by (simp add: deliver_Set_remember setRemember_def LoginForm_checkbox fire_def)

text \<open>
  C8. The scenario: on a fresh form whose callback returns a promise, enter the email
  \<open>a@b.com\<close> and the password \<open>secret\<close>, check remember, submit, and let the promise
  fulfil. Before the submission the button reads \<open>Entrar\<close>; after it, while the promise is
  awaited, \<open>Entrando...\<close>; after the fulfilment, with nothing awaited, \<open>Entrar\<close> again; and
  the callback was invoked once, with those three values.
\<close>

theorem scenario_remembered_login:
  "button_text (LoginForm cn (p\<lparr>onSubmit := Some (\<lambda>d. Returns_promise)\<rparr>)
      (cells (run cn (map (Pair (p\<lparr>onSubmit := Some (\<lambda>d. Returns_promise)\<rparr>))
         [Type_email ''a@b.com'', Type_password ''secret'', Set_remember True]) mount)))
     = Some ''Entrar''
   \<and> awaiting (run cn (map (Pair (p\<lparr>onSubmit := Some (\<lambda>d. Returns_promise)\<rparr>))
         [Type_email ''a@b.com'', Type_password ''secret'', Set_remember True, Submit]) mount)
     = [0]
   \<and> button_text (LoginForm cn (p\<lparr>onSubmit := Some (\<lambda>d. Returns_promise)\<rparr>)
      (cells (run cn (map (Pair (p\<lparr>onSubmit := Some (\<lambda>d. Returns_promise)\<rparr>))
         [Type_email ''a@b.com'', Type_password ''secret'', Set_remember True, Submit]) mount)))
     = Some ''Entrando...''
   \<and> awaiting (run cn (map (Pair (p\<lparr>onSubmit := Some (\<lambda>d. Returns_promise)\<rparr>))
         [Type_email ''a@b.com'', Type_password ''secret'', Set_remember True, Submit,
          Settle 0 Fulfilled]) mount)
     = []
   \<and> button_text (LoginForm cn (p\<lparr>onSubmit := Some (\<lambda>d. Returns_promise)\<rparr>)
      (cells (run cn (map (Pair (p\<lparr>onSubmit := Some (\<lambda>d. Returns_promise)\<rparr>))
         [Type_email ''a@b.com'', Type_password ''secret'', Set_remember True, Submit,
          Settle 0 Fulfilled]) mount)))
     = Some ''Entrar''
   \<and> calls (run cn (map (Pair (p\<lparr>onSubmit := Some (\<lambda>d. Returns_promise)\<rparr>))
         [Type_email ''a@b.com'', Type_password ''secret'', Set_remember True, Submit,
          Settle 0 Fulfilled]) mount)
     = [(0, \<lparr>email = ''a@b.com'', password = ''secret'', remember = True\<rparr>)]"
  by (simp add: run_def deliver_eqs button_text_def LoginForm_submit_button handleSubmit_defs
      setEmail_def setPassword_def setRemember_def mount_def initial_state_def)

text \<open>
  C9. \<open>LoginPage\<close> is a static, stateless composition. Its body reads no hook cell, and
  returns the same tree whatever cells the instance has, so any two renders give the same
  tree. That tree attaches no event handler anywhere. It is a titled card and a paragraph:
  the card holds the title \<open>Login\<close>, the description and, as its content, \<open>LoginForm\<close>
  once, without props; the paragraph holds the fixed legal text with its two links, both
  to \<open>#\<close>.
\<close>

theorem LoginPage_static:
  "LoginPage_body store i = (LoginPage, i)
   \<and> fst (LoginPage_body store i) = fst (LoginPage_body store' i')
   \<and> handlers LoginPage = []
   \<and> outline LoginPage =
       [(''div'', 1), (''div'', 2),
        (''Card'', 2),
        (''CardHeader'', 2),
        (''CardTitle'', 1), (''#text'', 0),
        (''CardDescription'', 1), (''#text'', 0),
        (''CardContent'', 1),
        (''LoginForm'', 0),
        (''p'', 8),
        (''#text'', 0), (''#text'', 0),
        (''a'', 1), (''#text'', 0),
        (''#text'', 0), (''#text'', 0), (''#text'', 0),
        (''a'', 1), (''#text'', 0),
        (''#text'', 0)]
   \<and> texts LoginPage =
       [''Login'',
        ''Sistema de Aptid'' @ [CHR 0xE3] @ ''o SENAC'',
        ''Ao continuar, voc'' @ [CHR 0xEA] @ '' concorda com nossos'',
        '' '',
        ''Termos de Servi'' @ [CHR 0xE7] @ ''o'',
        '' '', ''e'', '' '',
        ''Pol'' @ [CHR 0xED] @ ''tica de Privacidade'',
        ''.'']
   \<and> by_tag ''LoginForm'' LoginPage = [Element ''LoginForm'' [] []]
   \<and> map (by_tag ''LoginForm'') (by_tag ''Card'' LoginPage) = [[Element ''LoginForm'' [] []]]
   \<and> map texts (by_tag ''CardTitle'' LoginPage) = [[''Login'']]
   \<and> map texts (by_tag ''Card'' LoginPage) =
       [[''Login'', ''Sistema de Aptid'' @ [CHR 0xE3] @ ''o SENAC'']]
   \<and> map (\<lambda>el. (prop_of ''href'' el, texts el)) (by_tag ''a'' LoginPage) =
       [(Some (S ''#''), [''Termos de Servi'' @ [CHR 0xE7] @ ''o'']),
        (Some (S ''#''), [''Pol'' @ [CHR 0xED] @ ''tica de Privacidade''])]"
  by (simp add: LoginPage_body_def returns_def LoginPage_def by_tag_def cls_def)

text \<open>
  C10. A freshly mounted form has empty \<open>email\<close> and \<open>password\<close>, and \<open>remember\<close> and
  \<open>isLoading\<close> false; submitting it at once, with a callback supplied, invokes the callback
  with the empty strings and \<open>false\<close>.
\<close>

theorem fresh_form_submits_empty:
  "email (cells (mount :: 'e world)) = ''''
   \<and> password (cells (mount :: 'e world)) = ''''
   \<and> \<not> remember (cells (mount :: 'e world))
   \<and> \<not> isLoading (cells (mount :: 'e world))
   \<and> calls (deliver cn (p\<lparr>onSubmit := Some g\<rparr>) Submit (mount :: 'e world))
       = [(0, \<lparr>email = '''', password = '''', remember = False\<rparr>)]"
proof -
  have "calls (deliver cn (p\<lparr>onSubmit := Some g\<rparr>) Submit (mount :: 'e world))
       = [(0, \<lparr>email = '''', password = '''', remember = False\<rparr>)]"
    by (cases "g \<lparr>email = '''', password = '''', remember = False\<rparr>")
      (simp_all add: deliver_Submit handleSubmit_defs mount_def initial_state_def)
  then show ?thesis
    by (simp add: mount_def initial_state_def)
qed

end
